theory Spec2Isabelle
  imports Main "HOL-Library.Word" "HOL-Library.Sublist"
begin

unbundle bit_operations_syntax

section \<open>The matchers of \<^verbatim>\<open>match.go\<close>\<close>

text \<open>
  A shallow embedding of package \<^verbatim>\<open>finddd\<close> (file \<^verbatim>\<open>match.go\<close>). Go strings are
  byte sequences and are modelled as \<open>string\<close>. A panic is a value of type \<open>error\<close>:
  a \<open>Match\<close> that can panic returns \<open>error + bool\<close>, with \<open>Inl\<close> for the panic.
  The integers of the matchers (\<^verbatim>\<open>int\<close>, \<^verbatim>\<open>int64\<close>) are only compared, and the one
  increment (\<^verbatim>\<open>m.count += 1\<close>) happens below \<^verbatim>\<open>m.max\<close>, so nothing can wrap around:
  they are modelled as \<open>int\<close>. File modes are tested bitwise and are \<open>32 word\<close>,
  as \<^verbatim>\<open>fs.FileMode\<close> is a \<^verbatim>\<open>uint32\<close>.
\<close>

subsection \<open>The functions of the Go standard library that the matchers call\<close>

text \<open>
  These are not code of the package. They are modelled after the standard library on
  Unix, where the path separator is \<open>/\<close> and the list separator is \<open>:\<close>.
\<close>

text \<open>\<^verbatim>\<open>strings.HasPrefix\<close> and \<^verbatim>\<open>strings.HasSuffix\<close>: length test, then comparison
  of the slice.\<close>

definition HasPrefix :: "string \<Rightarrow> string \<Rightarrow> bool" where
  "HasPrefix s pre = (length s \<ge> length pre \<and> take (length pre) s = pre)"

definition HasSuffix :: "string \<Rightarrow> string \<Rightarrow> bool" where
  "HasSuffix s suf = (length s \<ge> length suf \<and> drop (length s - length suf) s = suf)"

text \<open>\<^verbatim>\<open>strings.ToLower\<close>. The library first scans the string: when every byte is
  below \<^verbatim>\<open>utf8.RuneSelf\<close> (128) it moves the bytes \<open>A\<close> to \<open>Z\<close> to \<open>a\<close> to \<open>z\<close> and
  keeps the others; otherwise it returns \<^verbatim>\<open>Map(unicode.ToLower, s)\<close>, which decodes
  the string as UTF-8, maps every code point through the case tables of package
  \<^verbatim>\<open>unicode\<close> and writes U+FFFD for a byte that is not UTF-8. The tables are not
  part of the package, so this second branch is the parameter \<open>mapLower\<close> of
  \<open>ToLower\<close> and of every function that calls it; what is proved for every
  \<open>mapLower\<close> holds for the library's.\<close>

definition isUpper :: "char \<Rightarrow> bool" where
  "isUpper c = (65 \<le> (of_char c :: nat) \<and> (of_char c :: nat) \<le> 90)"

definition lowerByte :: "char \<Rightarrow> char" where
  "lowerByte c = (if isUpper c then char_of ((of_char c :: nat) + 32) else c)"

definition isASCII :: "char \<Rightarrow> bool" where
  "isASCII c = ((of_char c :: nat) < 128)"

definition ToLower :: "(string \<Rightarrow> string) \<Rightarrow> string \<Rightarrow> string" where
  "ToLower mapLower s = (if list_all isASCII s then map lowerByte s else mapLower s)"

text \<open>\<^verbatim>\<open>filepath.Base\<close>: the empty path gives \<open>.\<close>; trailing separators are
  removed; the result is what follows the last separator, and \<open>/\<close> when nothing
  is left.\<close>

definition isSep :: "char \<Rightarrow> bool" where
  "isSep c = (c = CHR ''/'')"

definition Base :: "string \<Rightarrow> string" where
  "Base path =
     (if path = [] then ''.''
      else let p = rev (dropWhile isSep (rev path));
               e = rev (takeWhile (\<lambda>c. \<not> isSep c) (rev p))
           in if e = [] then ''/'' else e)"

text \<open>\<^verbatim>\<open>strings.Split\<close> with a separator of one byte: the pieces between the
  separators, one more than there are separators.\<close>

fun Split :: "char \<Rightarrow> string \<Rightarrow> string list" where
  "Split sep [] = [[]]"
| "Split sep (c # cs) =
     (if c = sep then [] # Split sep cs
      else (case Split sep cs of
              [] \<Rightarrow> [[c]]
            | w # ws \<Rightarrow> (c # w) # ws))"

text \<open>\<^verbatim>\<open>filepath.SplitList\<close>: splits a list of paths joined by the list separator
  (as in \<^verbatim>\<open>PATH\<close>); the empty string gives the empty list.\<close>

definition SplitList :: "string \<Rightarrow> string list" where
  "SplitList path = (if path = [] then [] else Split (CHR '':'') path)"

text \<open>\<^verbatim>\<open>filepath.Clean\<close>, by path elements: empty elements and \<open>.\<close> are dropped;
  \<open>..\<close> removes the element before it when there is one that is not itself \<open>..\<close>,
  is dropped at the root, and is kept otherwise; the empty result is \<open>.\<close>.
  \<open>cleanElems rooted out es\<close> holds the elements written so far in \<open>out\<close>, last
  first.\<close>

fun cleanElems :: "bool \<Rightarrow> string list \<Rightarrow> string list \<Rightarrow> string list" where
  "cleanElems rooted out [] = rev out"
| "cleanElems rooted out (e # es) =
     (if e = [] \<or> e = ''.'' then cleanElems rooted out es
      else if e = ''..'' then
        (case out of
           [] \<Rightarrow> if rooted then cleanElems rooted [] es
                 else cleanElems rooted [''..''] es
         | t # ts \<Rightarrow> if t \<noteq> ''..'' then cleanElems rooted ts es
                     else cleanElems rooted (''..'' # out) es)
      else cleanElems rooted (e # out) es)"

fun joinSep :: "string list \<Rightarrow> string" where
  "joinSep [] = []"
| "joinSep [e] = e"
| "joinSep (e # es) = e @ ''/'' @ joinSep es"

definition Clean :: "string \<Rightarrow> string" where
  "Clean path =
     (if path = [] then ''.''
      else let rooted = isSep (hd path);
               out = (if rooted then ''/'' else []) @
                     joinSep (cleanElems rooted [] (Split (CHR ''/'') path))
           in if out = [] then ''.'' else out)"

subsection \<open>The filesystem\<close>

text \<open>
  \<^verbatim>\<open>fs.FS\<close> is an interface supplied by the caller. The matchers reach it through
  \<^verbatim>\<open>fs.Stat\<close> and \<^verbatim>\<open>fs.ReadDir\<close> only, so a filesystem is these two lookups, with
  \<open>None\<close> for a call that returns an error. Of \<^verbatim>\<open>fs.FileInfo\<close> the matchers read
  the mode, the size and the modification time (an instant, modelled as \<open>int\<close>;
  \<^verbatim>\<open>Before\<close> and \<^verbatim>\<open>After\<close> are its strict order).
\<close>

record FileInfo =
  Mode :: "32 word"
  Size :: int
  ModTime :: int

record FS =
  Stat :: "string \<Rightarrow> FileInfo option"
  ReadDir :: "string \<Rightarrow> string list option"

datatype error = PanicTodo | PanicNilFunc

subsection \<open>SuffixMatcher\<close>

record SuffixMatcher =
  suffixes :: "string list"

fun anyHasSuffix :: "string \<Rightarrow> string list \<Rightarrow> bool" where
  "anyHasSuffix name [] = False"
| "anyHasSuffix name (v # vs) = (if HasSuffix name v then True else anyHasSuffix name vs)"

definition SuffixMatcher_Match ::
  "(string \<Rightarrow> string) \<Rightarrow> SuffixMatcher \<Rightarrow> FS \<Rightarrow> string \<Rightarrow> bool" where
  "SuffixMatcher_Match mapLower m fsys path =
     (if length (suffixes m) = 0 then True
      else let name = ToLower mapLower (Base path) in anyHasSuffix name (suffixes m))"

subsection \<open>Configuration functions\<close>

text \<open>
  An \<^verbatim>\<open>Option\<close> is a function on a \<^verbatim>\<open>Matcher\<close> that asserts the concrete type it is
  meant for and does nothing on any other. The package builds options with the
  functions below only, so an option is the name of its builder and its argument;
  \<open>applySuffix\<close>, \<open>applyFiletype\<close>, ... apply an option to a matcher of one
  concrete type, and are the identity where the type assertion fails.
\<close>

type_synonym FileType = string

datatype Option =
    WithSuffixes "string list"
  | WithFileTypes "FileType list"
  | WithTimeOlder "int option"
  | WithTimeNewer "int option"
  | WithMinSize int
  | WithMaxSize int
  | WithHidden bool
  | WithMaxDepth int
  | WithMinDepth int
  | WithExactDepth int
  | WithMaxResult int

fun applySuffix :: "Option \<Rightarrow> SuffixMatcher \<Rightarrow> SuffixMatcher" where
  "applySuffix (WithSuffixes ss) sm = sm\<lparr>suffixes := ss\<rparr>"
| "applySuffix _ sm = sm"

definition NewSuffixMatcher :: "Option list \<Rightarrow> SuffixMatcher" where
  "NewSuffixMatcher opts = foldl (\<lambda>sm opt. applySuffix opt sm) \<lparr>suffixes = []\<rparr> opts"

subsection \<open>FiletypeMatcher\<close>

definition FT_FILE :: FileType where "FT_FILE = ''f''"
definition FT_DIRECTORY :: FileType where "FT_DIRECTORY = ''d''"
definition FT_SYMLINK :: FileType where "FT_SYMLINK = ''l''"
definition FT_EXECUTABLE :: FileType where "FT_EXECUTABLE = ''x''"
definition FT_EMPTY :: FileType where "FT_EMPTY = ''e''"
definition FT_SOCKET :: FileType where "FT_SOCKET = ''s''"
definition FT_PIPE :: FileType where "FT_PIPE = ''p''"

text \<open>The mode bits of \<^verbatim>\<open>io/fs\<close>: \<^verbatim>\<open>ModeDir\<close> is bit 31, \<^verbatim>\<open>ModeSymlink\<close> bit 27,
  \<^verbatim>\<open>ModeDevice\<close> bit 26, \<^verbatim>\<open>ModeNamedPipe\<close> bit 25, \<^verbatim>\<open>ModeSocket\<close> bit 24,
  \<^verbatim>\<open>ModeCharDevice\<close> bit 21, \<^verbatim>\<open>ModeIrregular\<close> bit 19, and \<^verbatim>\<open>ModeType\<close> is the
  union of these seven.\<close>

definition ModeDir :: "32 word" where "ModeDir = 0x80000000"
definition ModeSymlink :: "32 word" where "ModeSymlink = 0x08000000"
definition ModeDevice :: "32 word" where "ModeDevice = 0x04000000"
definition ModeNamedPipe :: "32 word" where "ModeNamedPipe = 0x02000000"
definition ModeSocket :: "32 word" where "ModeSocket = 0x01000000"
definition ModeCharDevice :: "32 word" where "ModeCharDevice = 0x00200000"
definition ModeIrregular :: "32 word" where "ModeIrregular = 0x00080000"

definition ModeType :: "32 word" where
  "ModeType = ModeDir OR ModeSymlink OR ModeNamedPipe OR ModeSocket OR ModeDevice
                OR ModeCharDevice OR ModeIrregular"

definition S_IXUSR :: "32 word" where "S_IXUSR = 0x40"
definition S_IXGRP :: "32 word" where "S_IXGRP = 0x08"
definition S_IXOTH :: "32 word" where "S_IXOTH = 0x01"
definition xmode :: "32 word" where "xmode = S_IXUSR OR S_IXGRP OR S_IXOTH"

text \<open>The execute bits, octal \<^verbatim>\<open>0100\<close>, \<^verbatim>\<open>0010\<close> and \<^verbatim>\<open>0001\<close> in the source, are
  written in hexadecimal above.\<close>

record FiletypeMatcher =
  ftypes :: "FileType list"

fun applyFiletype :: "Option \<Rightarrow> FiletypeMatcher \<Rightarrow> FiletypeMatcher" where
  "applyFiletype (WithFileTypes fts) ftm = ftm\<lparr>ftypes := fts\<rparr>"
| "applyFiletype _ ftm = ftm"

definition NewFiletypeMatcher :: "Option list \<Rightarrow> FiletypeMatcher" where
  "NewFiletypeMatcher opts = foldl (\<lambda>ftm opt. applyFiletype opt ftm) \<lparr>ftypes = []\<rparr> opts"

text \<open>
  The table \<^verbatim>\<open>fns\<close> of \<open>FiletypeMatcher.Match\<close>. Its entries are closures that read
  \<^verbatim>\<open>mode\<close>, \<^verbatim>\<open>info\<close> and the filesystem and change nothing, so an entry is modelled
  by the value its call returns. A key without an entry gives the nil function,
  and calling it panics.
\<close>

definition fnsEmpty :: "FS \<Rightarrow> string \<Rightarrow> FileInfo \<Rightarrow> bool" where
  "fnsEmpty fsys path info =
     (if Mode info AND ModeType = 0 then Size info = 0
      else if Mode info AND ModeDir = 0 then
        (case ReadDir fsys path of
           None \<Rightarrow> False
         | Some des \<Rightarrow> length des = 0)
      else False)"

definition fns :: "FS \<Rightarrow> string \<Rightarrow> FileInfo \<Rightarrow> (FileType \<rightharpoonup> bool)" where
  "fns fsys path info =
     [FT_FILE \<mapsto> Mode info AND ModeType = 0,
      FT_DIRECTORY \<mapsto> Mode info AND ModeDir = 0,
      FT_SYMLINK \<mapsto> Mode info AND ModeSymlink = 0,
      FT_EXECUTABLE \<mapsto> Mode info AND xmode > 0,
      FT_SOCKET \<mapsto> Mode info AND ModeSocket = 0,
      FT_PIPE \<mapsto> Mode info AND ModeNamedPipe = 0,
      FT_EMPTY \<mapsto> fnsEmpty fsys path info]"

fun anyFiletype :: "(FileType \<rightharpoonup> bool) \<Rightarrow> FileType list \<Rightarrow> error + bool" where
  "anyFiletype f [] = Inr False"
| "anyFiletype f (ft # fts) =
     (case f ft of
        None \<Rightarrow> Inl PanicNilFunc
      | Some b \<Rightarrow> if b then Inr True else anyFiletype f fts)"

definition FiletypeMatcher_Match :: "FiletypeMatcher \<Rightarrow> FS \<Rightarrow> string \<Rightarrow> error + bool" where
  "FiletypeMatcher_Match m fsys path =
     (if length (ftypes m) = 0 then Inr True
      else case Stat fsys path of
             None \<Rightarrow> Inr False
           | Some info \<Rightarrow> anyFiletype (fns fsys path info) (ftypes m))"

subsection \<open>ChangeTimeMatcher\<close>

text \<open>The two cutoffs are pointers; \<open>None\<close> is the nil pointer.\<close>

record ChangeTimeMatcher =
  older :: "int option"
  newer :: "int option"

fun applyChangeTime :: "Option \<Rightarrow> ChangeTimeMatcher \<Rightarrow> ChangeTimeMatcher" where
  "applyChangeTime (WithTimeOlder t) ctm = ctm\<lparr>older := t\<rparr>"
| "applyChangeTime (WithTimeNewer t) ctm = ctm\<lparr>newer := t\<rparr>"
| "applyChangeTime _ ctm = ctm"

definition NewChangeTimeMatcher :: "Option list \<Rightarrow> ChangeTimeMatcher" where
  "NewChangeTimeMatcher opts =
     foldl (\<lambda>ctm opt. applyChangeTime opt ctm) \<lparr>older = None, newer = None\<rparr> opts"

definition ChangeTimeMatcher_Match :: "ChangeTimeMatcher \<Rightarrow> FS \<Rightarrow> string \<Rightarrow> error + bool" where
  "ChangeTimeMatcher_Match m fsys path =
     (if older m = None \<and> newer m = None then Inr True
      else case Stat fsys path of
             None \<Rightarrow> Inr False
           | Some info \<Rightarrow>
               let mtime = ModTime info;
                   ok = (case older m of None \<Rightarrow> True | Some ot \<Rightarrow> ot < mtime)
               in (case newer m of
                     None \<Rightarrow> Inr ok
                   | Some nt \<Rightarrow>
                       (case older m of
                          None \<Rightarrow> Inr (ok \<and> nt > mtime)
                        | Some ot \<Rightarrow>
                            if \<not> ot < nt then Inl PanicTodo
                            else Inr (ok \<and> nt > mtime))))"

subsection \<open>SizeMatcher\<close>

record SizeMatcher =
  sm_min :: int
  sm_max :: int

fun applySize :: "Option \<Rightarrow> SizeMatcher \<Rightarrow> SizeMatcher" where
  "applySize (WithMinSize n) sm = sm\<lparr>sm_min := n\<rparr>"
| "applySize (WithMaxSize n) sm = sm\<lparr>sm_max := n\<rparr>"
| "applySize _ sm = sm"

definition NewSizeMatcher :: "Option list \<Rightarrow> SizeMatcher" where
  "NewSizeMatcher opts =
     foldl (\<lambda>sm opt. applySize opt sm) \<lparr>sm_min = - 1, sm_max = - 1\<rparr> opts"

definition SizeMatcher_Match :: "SizeMatcher \<Rightarrow> FS \<Rightarrow> string \<Rightarrow> error + bool" where
  "SizeMatcher_Match m fsys path =
     (if sm_min m < 0 \<and> sm_max m < 0 then Inr True
      else case Stat fsys path of
             None \<Rightarrow> Inr False
           | Some info \<Rightarrow>
               let sz = Size info;
                   ok = (if sm_min m \<ge> 0 then sz \<ge> sm_min m else True)
               in if sm_max m \<ge> 0 then
                    (if \<not> sm_min m \<le> sm_max m then Inl PanicTodo
                     else Inr (ok \<and> sz \<le> sm_max m))
                  else Inr ok)"

subsection \<open>HiddenMatcher\<close>

record HiddenMatcher =
  hidden :: bool

fun applyHidden :: "Option \<Rightarrow> HiddenMatcher \<Rightarrow> HiddenMatcher" where
  "applyHidden (WithHidden h) hm = hm\<lparr>hidden := h\<rparr>"
| "applyHidden _ hm = hm"

definition NewHiddenMatcher :: "Option list \<Rightarrow> HiddenMatcher" where
  "NewHiddenMatcher opts = foldl (\<lambda>hm opt. applyHidden opt hm) \<lparr>hidden = False\<rparr> opts"

definition HiddenMatcher_Match :: "HiddenMatcher \<Rightarrow> FS \<Rightarrow> string \<Rightarrow> bool" where
  "HiddenMatcher_Match m fsys path =
     (if hidden m then True else HasPrefix (Base path) ''.'')"

subsection \<open>DepthMatcher\<close>

record DepthMatcher =
  cur :: "string list"
  dm_min :: int
  dm_max :: int

fun applyDepth :: "Option \<Rightarrow> DepthMatcher \<Rightarrow> DepthMatcher" where
  "applyDepth (WithMaxDepth n) dm = dm\<lparr>dm_max := n\<rparr>"
| "applyDepth (WithMinDepth n) dm = dm\<lparr>dm_min := n\<rparr>"
| "applyDepth (WithExactDepth n) dm = dm\<lparr>dm_max := n, dm_min := n\<rparr>"
| "applyDepth _ dm = dm"

definition NewDepthMatcher :: "string \<Rightarrow> Option list \<Rightarrow> DepthMatcher" where
  "NewDepthMatcher c opts =
     foldl (\<lambda>dm opt. applyDepth opt dm)
       \<lparr>cur = SplitList (Clean c), dm_min = - 1, dm_max = - 1\<rparr> opts"

definition DepthMatcher_Match :: "DepthMatcher \<Rightarrow> FS \<Rightarrow> string \<Rightarrow> error + bool" where
  "DepthMatcher_Match m fsys path =
     (let path' = Clean path;
          depth = int (length (cur m)) - int (length (SplitList path'));
          ok = (if dm_min m \<ge> 0 then depth \<ge> dm_min m else True)
      in if dm_max m \<ge> 0 then
           (if \<not> dm_min m \<le> dm_max m then Inl PanicTodo
            else Inr (ok \<and> depth \<le> dm_max m))
         else Inr ok)"

subsection \<open>MaxResultMatcher\<close>

text \<open>The one matcher with state: \<open>Match\<close> returns its result and the matcher as
  the call leaves it.\<close>

record MaxResultMatcher =
  mrm_count :: int
  mrm_max :: int

fun applyMaxResult :: "Option \<Rightarrow> MaxResultMatcher \<Rightarrow> MaxResultMatcher" where
  "applyMaxResult (WithMaxResult n) mrm = mrm\<lparr>mrm_max := n\<rparr>"
| "applyMaxResult _ mrm = mrm"

definition NewMaxResultMatcher :: "Option list \<Rightarrow> MaxResultMatcher" where
  "NewMaxResultMatcher opts =
     foldl (\<lambda>mrm opt. applyMaxResult opt mrm) \<lparr>mrm_count = 0, mrm_max = - 1\<rparr> opts"

definition MaxResultMatcher_Match ::
  "MaxResultMatcher \<Rightarrow> FS \<Rightarrow> string \<Rightarrow> bool \<times> MaxResultMatcher" where
  "MaxResultMatcher_Match m fsys path =
     (if mrm_max m < 0 then (True, m)
      else let ok = mrm_count m < mrm_max m
           in if ok then (ok, m\<lparr>mrm_count := mrm_count m + 1\<rparr>) else (ok, m))"

text \<open>A run of invocations on one matcher, in order, each with its own filesystem
  and path: the results, and the matcher as the last call leaves it.\<close>

fun MaxResultMatcher_Matches ::
  "MaxResultMatcher \<Rightarrow> (FS \<times> string) list \<Rightarrow> bool list \<times> MaxResultMatcher" where
  "MaxResultMatcher_Matches m [] = ([], m)"
| "MaxResultMatcher_Matches m ((fsys, path) # cs) =
     (let (b, m') = MaxResultMatcher_Match m fsys path;
          (bs, m'') = MaxResultMatcher_Matches m' cs
      in (b # bs, m''))"

subsection \<open>NopMatcher and MultiMatcher\<close>

text \<open>
  \<^verbatim>\<open>Matcher\<close> is an interface: a \<^verbatim>\<open>MultiMatcher\<close> holds values of any type with a
  \<^verbatim>\<open>Match\<close> method, and a call may change the object behind the value (the counter
  of a \<^verbatim>\<open>MaxResultMatcher\<close>) or panic. So a \<open>Matcher\<close> is its \<open>Match\<close> as a
  function on a store \<open>'s\<close> that holds every such object: it returns the result,
  or the panic, and the store as the call leaves it.
\<close>

type_synonym 's Matcher = "FS \<Rightarrow> string \<Rightarrow> 's \<Rightarrow> (error + bool) \<times> 's"

definition NopMatcher_Match :: "FS \<Rightarrow> string \<Rightarrow> bool" where
  "NopMatcher_Match fsys path = True"

text \<open>\<open>IgnoreFileMatcher.Match\<close> returns true as well, and \<open>FilenameMatcher.Match\<close>
  panics in its first statement, whatever its fields hold.\<close>

definition IgnoreFileMatcher_Match :: "FS \<Rightarrow> string \<Rightarrow> bool" where
  "IgnoreFileMatcher_Match fsys path = True"

definition FilenameMatcher_Match :: "FS \<Rightarrow> string \<Rightarrow> error + bool" where
  "FilenameMatcher_Match fsys path = Inl PanicTodo"

record 's MultiMatcher =
  ms :: "'s Matcher list"

definition Add :: "'s MultiMatcher \<Rightarrow> 's Matcher list \<Rightarrow> 's MultiMatcher" where
  "Add m new = m\<lparr>ms := ms m @ new\<rparr>"

fun allMatch :: "'s Matcher list \<Rightarrow> 's Matcher" where
  "allMatch [] fsys path s = (Inr True, s)"
| "allMatch (v # vs) fsys path s =
     (case v fsys path s of
        (Inl e, s') \<Rightarrow> (Inl e, s')
      | (Inr b, s') \<Rightarrow> if \<not> b then (Inr False, s') else allMatch vs fsys path s')"

definition MultiMatcher_Match :: "'s MultiMatcher \<Rightarrow> 's Matcher" where
  "MultiMatcher_Match m fsys path s = allMatch (ms m) fsys path s"

text \<open>The matchers of the package as values of the interface. The stateless ones
  leave the store alone; the store of \<open>MaxResultM\<close> is the matcher's own record.\<close>

definition PureM :: "(FS \<Rightarrow> string \<Rightarrow> bool) \<Rightarrow> 's Matcher" where
  "PureM f fsys path s = (Inr (f fsys path), s)"

definition StatM :: "(FS \<Rightarrow> string \<Rightarrow> error + bool) \<Rightarrow> 's Matcher" where
  "StatM f fsys path s = (f fsys path, s)"

definition MaxResultM :: "MaxResultMatcher Matcher" where
  "MaxResultM fsys path s =
     (let (b, s') = MaxResultMatcher_Match s fsys path in (Inr b, s'))"

subsection \<open>Notions used in the properties\<close>

text \<open>The store as it is after every matcher of a list has been invoked in order,
  whatever each returned.\<close>

definition thread :: "'s Matcher list \<Rightarrow> FS \<Rightarrow> string \<Rightarrow> 's \<Rightarrow> 's" where
  "thread vs fsys path s = foldl (\<lambda>t v. snd (v fsys path t)) s vs"

text \<open>What the \<open>k\<close>-th matcher of a list returns when the ones before it have been
  invoked in order.\<close>

definition resultAt :: "'s Matcher list \<Rightarrow> FS \<Rightarrow> string \<Rightarrow> 's \<Rightarrow> nat \<Rightarrow> error + bool" where
  "resultAt vs fsys path s k = fst ((vs ! k) fsys path (thread (take k vs) fsys path s))"

text \<open>Two filesystems to evaluate the matchers on: one where every call fails, and
  one with a directory \<open>/r\<close> (mode \<^verbatim>\<open>d rwxr-xr-x\<close>) that holds a regular file \<open>x\<close>
  of 100 bytes (mode \<^verbatim>\<open>rw-r--r--\<close>) and a regular file \<open>y\<close> of 101 bytes.\<close>

definition noFS :: FS where
  "noFS = \<lparr>Stat = (\<lambda>p. None), ReadDir = (\<lambda>p. None)\<rparr>"

definition exampleFS :: FS where
  "exampleFS =
     \<lparr>Stat = (\<lambda>p. if p = ''/r'' then Some \<lparr>Mode = ModeDir OR 0x1ED, Size = 4096, ModTime = 50\<rparr>
                  else if p = ''/r/x'' then Some \<lparr>Mode = 0x1A4, Size = 100, ModTime = 60\<rparr>
                  else if p = ''/r/y'' then Some \<lparr>Mode = 0x1A4, Size = 101, ModTime = 70\<rparr>
                  else None),
      ReadDir = (\<lambda>p. if p = ''/r'' then Some [''x'', ''y''] else None)\<rparr>"

text \<open>The same tree with the listing of \<open>/r\<close> empty.\<close>

definition emptyDirFS :: FS where
  "emptyDirFS = exampleFS\<lparr>ReadDir := (\<lambda>p. if p = ''/r'' then Some [] else None)\<rparr>"

text \<open>A composite of three matchers, added in two calls: one that matches every
  path, a suffix matcher for \<open>.go\<close>, and a result cap. It is evaluated on ASCII
  paths only, where \<open>ToLower\<close> does not reach its parameter; the identity stands
  in for it.\<close>

definition exampleMulti :: "MaxResultMatcher MultiMatcher" where
  "exampleMulti =
     Add (Add \<lparr>ms = []\<rparr> [PureM NopMatcher_Match])
       [PureM (SuffixMatcher_Match id (NewSuffixMatcher [WithSuffixes [''.go'']])), MaxResultM]"


text \<open>A path whose base name is not ASCII: \<open>/r/\<close>, the two bytes of U+00E9 in
  UTF-8 (a lower-case letter, which the library keeps), and \<open>.GO\<close>. On this base
  name the library's mapping moves \<open>G\<close> and \<open>O\<close> to \<open>g\<close> and \<open>o\<close> and keeps the
  other bytes, as \<open>map lowerByte\<close> does.\<close>

definition accentedPath :: string where
  "accentedPath = ''/r/'' @ [CHR 0xC3, CHR 0xA9] @ ''.GO''"

section \<open>Properties\<close>

subsection \<open>The library functions\<close>

lemma HasSuffix_suffix: "HasSuffix s suf = suffix suf s"
  unfolding HasSuffix_def suffix_def
  by (metis append_eq_conv_conj append_take_drop_id diff_add_inverse2 le_add2 length_append)

lemma HasPrefix_prefix: "HasPrefix s pre = prefix pre s"
  unfolding HasPrefix_def prefix_def
  by (metis append_eq_conv_conj append_take_drop_id le_add1 length_append)



text \<open>On an ASCII string the parameter is not reached.\<close>

lemma ToLower_ascii: "list_all isASCII s \<Longrightarrow> ToLower f s = ToLower g s"
  by (simp add: ToLower_def)




subsection \<open>SuffixMatcher\<close>

lemma anyHasSuffix_iff: "anyHasSuffix name vs = (\<exists>s\<in>set vs. HasSuffix name s)"
  by (induction vs) auto

lemma go_name: "ToLower f (Base ''/r/a/main.go'') = ''main.go''"
  by (simp add: Base_def isSep_def ToLower_def isASCII_def lowerByte_def isUpper_def)

lemma txt_name: "ToLower f (Base ''/r/a/main.txt'') = ''main.txt''"
  by (simp add: Base_def isSep_def ToLower_def isASCII_def lowerByte_def isUpper_def)

text \<open>
  Claim C7. For every suffix list and every path, \<open>SuffixMatcher.Match\<close> returns true
  exactly when the list is empty or the lower-cased base name of the path ends with
  one of the suffixes, as a plain string (\<open>suffix\<close> is the list order of
  \<open>HOL-Library.Sublist\<close>). The lower-cased base name is \<open>strings.ToLower\<close> of
  \<open>filepath.Base\<close> of the path, whatever the library's mapping of non-ASCII strings
  is. With the one suffix \<open>.go\<close>, \<open>/r/a/main.go\<close> matches and \<open>/r/a/main.txt\<close> does
  not.
\<close>

theorem SuffixMatcher_Match_iff:
  "SuffixMatcher_Match mapLower m fsys path =
     (suffixes m = [] \<or> (\<exists>s\<in>set (suffixes m). suffix s (ToLower mapLower (Base path))))
   \<and> SuffixMatcher_Match mapLower (NewSuffixMatcher [WithSuffixes [''.go'']]) fsys
        ''/r/a/main.go''
   \<and> \<not> SuffixMatcher_Match mapLower (NewSuffixMatcher [WithSuffixes [''.go'']]) fsys
        ''/r/a/main.txt''"
proof -
  have a: "SuffixMatcher_Match mapLower m fsys path =
     (suffixes m = [] \<or> (\<exists>s\<in>set (suffixes m). suffix s (ToLower mapLower (Base path))))"
    by (simp add: SuffixMatcher_Match_def anyHasSuffix_iff HasSuffix_suffix)
  have b: "SuffixMatcher_Match mapLower (NewSuffixMatcher [WithSuffixes [''.go'']]) fsys
        ''/r/a/main.go''"
    by (simp add: SuffixMatcher_Match_def NewSuffixMatcher_def go_name HasSuffix_def)
  have c: "\<not> SuffixMatcher_Match mapLower (NewSuffixMatcher [WithSuffixes [''.go'']]) fsys
        ''/r/a/main.txt''"
    by (simp add: SuffixMatcher_Match_def NewSuffixMatcher_def txt_name HasSuffix_def)
  from a b c show ?thesis
    by blast
qed

text \<open>The theorem at a path with upper-case letters and a trailing separator, and at
  a path whose base name is not ASCII, where the mapping is reached.\<close>

theorem SuffixMatcher_Match_iff_witness:
  "SuffixMatcher_Match id \<lparr>suffixes = [''.txt'', ''.go'']\<rparr> noFS ''/r/a/Main.GO/''
   \<and> suffix ''.go'' (ToLower id (Base ''/r/a/Main.GO/''))
   \<and> SuffixMatcher_Match (map lowerByte) \<lparr>suffixes = [''.txt'', ''.go'']\<rparr> noFS accentedPath
   \<and> suffix ''.go'' (ToLower (map lowerByte) (Base accentedPath))"
proof -
  have n: "ToLower id (Base ''/r/a/Main.GO/'') = ''main.go''"
    by code_simp
  have n': "ToLower (map lowerByte) (Base accentedPath) = [CHR 0xC3, CHR 0xA9] @ ''.go''"
    by code_simp
  have "suffix ''.go'' ''main.go''" "suffix ''.go'' ([CHR 0xC3, CHR 0xA9] @ ''.go'')"
    by (simp_all add: suffix_def)
  then show ?thesis
    using SuffixMatcher_Match_iff
            [of id "\<lparr>suffixes = [''.txt'', ''.go'']\<rparr>" noFS "''/r/a/Main.GO/''"]
          SuffixMatcher_Match_iff
            [of "map lowerByte" "\<lparr>suffixes = [''.txt'', ''.go'']\<rparr>" noFS accentedPath]
    by (simp add: n n')
qed

text \<open>A string that the mapping keeps and that is not ASCII is its own lower-cased
  form, so as a suffix it matches a path with this base name. The library keeps a
  code point without a lower-case form, among them upper-case letters such as
  U+1D400.\<close>

lemma SuffixMatcher_kept_name_matches:
  assumes "\<not> list_all isASCII (Base path)" and "mapLower (Base path) = Base path"
  shows "SuffixMatcher_Match mapLower \<lparr>suffixes = [Base path]\<rparr> fsys path"
  using assms by (simp add: SuffixMatcher_Match_def ToLower_def HasSuffix_def)




subsection \<open>The example filesystems\<close>

lemma stat_r:
  "Stat exampleFS ''/r'' = Some \<lparr>Mode = ModeDir OR 0x1ED, Size = 4096, ModTime = 50\<rparr>"
  by (simp add: exampleFS_def)

lemma stat_x: "Stat exampleFS ''/r/x'' = Some \<lparr>Mode = 0x1A4, Size = 100, ModTime = 60\<rparr>"
  by (simp add: exampleFS_def)

lemma stat_y: "Stat exampleFS ''/r/y'' = Some \<lparr>Mode = 0x1A4, Size = 101, ModTime = 70\<rparr>"
  by (simp add: exampleFS_def)

lemma stat_none: "Stat noFS p = None"
  by (simp add: noFS_def)

subsection \<open>ChangeTimeMatcher\<close>

text \<open>
  Claim C5. When \<open>Stat\<close> succeeds on the path and the cutoffs are ordered (\<open>older\<close>
  strictly before \<open>newer\<close> when both are set), \<open>ChangeTimeMatcher.Match\<close> returns,
  without a panic, whether the modification time is strictly after \<open>older\<close> (when
  set) and strictly before \<open>newer\<close> (when set). With neither cutoff set it returns
  true on every filesystem, also on one where \<open>Stat\<close> fails.
\<close>

theorem ChangeTimeMatcher_Match_open_interval:
  "(Stat fsys path = Some info
      \<and> (\<forall>ot nt. older m = Some ot \<and> newer m = Some nt \<longrightarrow> ot < nt)
    \<longrightarrow> ChangeTimeMatcher_Match m fsys path =
          Inr ((\<forall>ot. older m = Some ot \<longrightarrow> ot < ModTime info)
               \<and> (\<forall>nt. newer m = Some nt \<longrightarrow> ModTime info < nt)))
   \<and> (older m = None \<and> newer m = None \<longrightarrow> ChangeTimeMatcher_Match m fsys path = Inr True)"
  by (auto simp: ChangeTimeMatcher_Match_def Let_def split: option.splits)

theorem ChangeTimeMatcher_Match_open_interval_witness:
  "ChangeTimeMatcher_Match \<lparr>older = Some 10, newer = Some 70\<rparr> exampleFS ''/r/x'' = Inr True
   \<and> ChangeTimeMatcher_Match \<lparr>older = Some 60, newer = Some 70\<rparr> exampleFS ''/r/x'' = Inr False
   \<and> ChangeTimeMatcher_Match \<lparr>older = Some 10, newer = Some 60\<rparr> exampleFS ''/r/x'' = Inr False
   \<and> ChangeTimeMatcher_Match \<lparr>older = None, newer = None\<rparr> noFS ''/r/x'' = Inr True"
  using ChangeTimeMatcher_Match_open_interval
          [of exampleFS "''/r/x''" "\<lparr>Mode = 0x1A4, Size = 100, ModTime = 60\<rparr>"
              "\<lparr>older = Some 10, newer = Some 70\<rparr>"]
        ChangeTimeMatcher_Match_open_interval
          [of exampleFS "''/r/x''" "\<lparr>Mode = 0x1A4, Size = 100, ModTime = 60\<rparr>"
              "\<lparr>older = Some 60, newer = Some 70\<rparr>"]
        ChangeTimeMatcher_Match_open_interval
          [of exampleFS "''/r/x''" "\<lparr>Mode = 0x1A4, Size = 100, ModTime = 60\<rparr>"
              "\<lparr>older = Some 10, newer = Some 60\<rparr>"]
        ChangeTimeMatcher_Match_open_interval
          [of noFS "''/r/x''" "\<lparr>Mode = 0x1A4, Size = 100, ModTime = 60\<rparr>"
              "\<lparr>older = None, newer = None\<rparr>"]
  by (simp add: stat_x)

subsection \<open>SizeMatcher\<close>

text \<open>
  Claim C6. A bound is set when it is not negative. When \<open>Stat\<close> succeeds on the path
  and \<open>min \<le> max\<close> holds if both are set, \<open>SizeMatcher.Match\<close> returns, without a
  panic, whether the size is at least \<open>min\<close> (when set) and at most \<open>max\<close> (when
  set). With neither bound set it returns true on every filesystem. With the bounds
  0 and 100, a file of size 100 matches and a file of size 101 does not.
\<close>

theorem SizeMatcher_Match_closed_interval:
  "(Stat fsys path = Some info
      \<and> (0 \<le> sm_min m \<and> 0 \<le> sm_max m \<longrightarrow> sm_min m \<le> sm_max m)
    \<longrightarrow> SizeMatcher_Match m fsys path =
          Inr ((0 \<le> sm_min m \<longrightarrow> sm_min m \<le> Size info)
               \<and> (0 \<le> sm_max m \<longrightarrow> Size info \<le> sm_max m)))
   \<and> (sm_min m < 0 \<and> sm_max m < 0 \<longrightarrow> SizeMatcher_Match m fsys path = Inr True)
   \<and> (Stat fsys path = Some info \<and> Size info = 100
        \<longrightarrow> SizeMatcher_Match (NewSizeMatcher [WithMinSize 0, WithMaxSize 100]) fsys path
              = Inr True)
   \<and> (Stat fsys path = Some info \<and> Size info = 101
        \<longrightarrow> SizeMatcher_Match (NewSizeMatcher [WithMinSize 0, WithMaxSize 100]) fsys path
              = Inr False)"
  by (auto simp: SizeMatcher_Match_def NewSizeMatcher_def Let_def)

theorem SizeMatcher_Match_closed_interval_witness:
  "SizeMatcher_Match \<lparr>sm_min = 100, sm_max = 100\<rparr> exampleFS ''/r/x'' = Inr True
   \<and> SizeMatcher_Match \<lparr>sm_min = - 1, sm_max = 100\<rparr> exampleFS ''/r/y'' = Inr False
   \<and> SizeMatcher_Match \<lparr>sm_min = - 1, sm_max = - 1\<rparr> noFS ''/r/x'' = Inr True
   \<and> SizeMatcher_Match (NewSizeMatcher [WithMinSize 0, WithMaxSize 100]) exampleFS ''/r/x''
       = Inr True
   \<and> SizeMatcher_Match (NewSizeMatcher [WithMinSize 0, WithMaxSize 100]) exampleFS ''/r/y''
       = Inr False"
  using SizeMatcher_Match_closed_interval
          [of exampleFS "''/r/x''" "\<lparr>Mode = 0x1A4, Size = 100, ModTime = 60\<rparr>"
              "\<lparr>sm_min = 100, sm_max = 100\<rparr>"]
        SizeMatcher_Match_closed_interval
          [of exampleFS "''/r/y''" "\<lparr>Mode = 0x1A4, Size = 101, ModTime = 70\<rparr>"
              "\<lparr>sm_min = - 1, sm_max = 100\<rparr>"]
        SizeMatcher_Match_closed_interval
          [of noFS "''/r/x''" "\<lparr>Mode = 0x1A4, Size = 100, ModTime = 60\<rparr>"
              "\<lparr>sm_min = - 1, sm_max = - 1\<rparr>"]
  by (simp add: stat_x stat_y)

subsection \<open>A failing stat\<close>

text \<open>
  Claim C9. On a path where \<open>Stat\<close> fails, \<open>FiletypeMatcher.Match\<close> with a non-empty
  type list, \<open>ChangeTimeMatcher.Match\<close> with a cutoff set and \<open>SizeMatcher.Match\<close>
  with a bound set each return false: the failure is not raised. (They return before
  the bounds are compared, so this holds for every order of the bounds.)
\<close>

theorem stat_failure_is_no_match:
  "Stat fsys path = None \<longrightarrow>
     (ftypes fm \<noteq> [] \<longrightarrow> FiletypeMatcher_Match fm fsys path = Inr False)
     \<and> (older cm \<noteq> None \<or> newer cm \<noteq> None
          \<longrightarrow> ChangeTimeMatcher_Match cm fsys path = Inr False)
     \<and> (0 \<le> sm_min sm \<or> 0 \<le> sm_max sm \<longrightarrow> SizeMatcher_Match sm fsys path = Inr False)"
  by (auto simp: FiletypeMatcher_Match_def ChangeTimeMatcher_Match_def SizeMatcher_Match_def)

theorem stat_failure_is_no_match_witness:
  "Stat noFS ''/r/gone'' = None
   \<and> FiletypeMatcher_Match \<lparr>ftypes = [FT_FILE]\<rparr> noFS ''/r/gone'' = Inr False
   \<and> ChangeTimeMatcher_Match \<lparr>older = Some 10, newer = None\<rparr> noFS ''/r/gone'' = Inr False
   \<and> SizeMatcher_Match \<lparr>sm_min = 0, sm_max = 100\<rparr> noFS ''/r/gone'' = Inr False"
  using stat_failure_is_no_match
          [of noFS "''/r/gone''" "\<lparr>ftypes = [FT_FILE]\<rparr>" "\<lparr>older = Some 10, newer = None\<rparr>"
              "\<lparr>sm_min = 0, sm_max = 100\<rparr>"]
  by (simp add: stat_none)

subsection \<open>MaxResultMatcher\<close>

lemma Matches_unbounded:
  "mrm_max m < 0 \<Longrightarrow> MaxResultMatcher_Matches m cs = (replicate (length cs) True, m)"
  by (induction cs) (auto simp: MaxResultMatcher_Match_def)

lemma Matches_exhausted:
  "0 \<le> mrm_max m \<Longrightarrow> mrm_max m \<le> mrm_count m \<Longrightarrow>
   MaxResultMatcher_Matches m cs = (replicate (length cs) False, m)"
  by (induction cs) (auto simp: MaxResultMatcher_Match_def)

lemma Matches_bounded:
  "0 \<le> mrm_max m \<Longrightarrow> mrm_count m + int n = mrm_max m \<Longrightarrow> n \<le> length cs \<Longrightarrow>
   MaxResultMatcher_Matches m cs =
     (replicate n True @ replicate (length cs - n) False, m\<lparr>mrm_count := mrm_max m\<rparr>)"
proof (induction n arbitrary: m cs)
  case 0
  then have "m\<lparr>mrm_count := mrm_max m\<rparr> = m"
    by simp
  with 0 show ?case
    by (simp add: Matches_exhausted)
next
  case (Suc n)
  then obtain fsys p cs' where cs: "cs = (fsys, p) # cs'"
    by (cases cs) auto
  let ?m' = "m\<lparr>mrm_count := mrm_count m + 1\<rparr>"
  have step: "MaxResultMatcher_Match m fsys p = (True, ?m')"
    using Suc.prems(1,2) by (simp add: MaxResultMatcher_Match_def)
  have "MaxResultMatcher_Matches ?m' cs' =
     (replicate n True @ replicate (length cs' - n) False, ?m'\<lparr>mrm_count := mrm_max ?m'\<rparr>)"
    using Suc.prems cs by (intro Suc.IH) auto
  then show ?case
    by (simp add: cs step)
qed

text \<open>
  Claim C4. A \<open>MaxResultMatcher\<close> built with \<open>max = k\<close> starts with its counter at
  zero. For \<open>k \<ge> 0\<close> and a run of at least \<open>k\<close> invocations, the first \<open>k\<close> return
  true, all the later ones return false, and the counter ends at \<open>k\<close>. For negative
  \<open>k\<close> every invocation returns true and the counter stays at zero. A matcher whose
  counter has reached a non-negative \<open>max\<close> returns false and does not change, and
  an invocation moves the counter, by one, only when \<open>max\<close> is not negative and it
  returns true.
\<close>

theorem MaxResultMatcher_cap:
  "(0 \<le> k \<and> nat k \<le> length cs \<longrightarrow>
      MaxResultMatcher_Matches (NewMaxResultMatcher [WithMaxResult k]) cs =
        (replicate (nat k) True @ replicate (length cs - nat k) False,
         \<lparr>mrm_count = k, mrm_max = k\<rparr>))
   \<and> (k < 0 \<longrightarrow>
      MaxResultMatcher_Matches (NewMaxResultMatcher [WithMaxResult k]) cs =
        (replicate (length cs) True, \<lparr>mrm_count = 0, mrm_max = k\<rparr>))
   \<and> mrm_count (NewMaxResultMatcher [WithMaxResult k]) = 0
   \<and> (0 \<le> mrm_max m \<and> mrm_max m \<le> mrm_count m \<longrightarrow>
        MaxResultMatcher_Match m fsys p = (False, m))
   \<and> mrm_count (snd (MaxResultMatcher_Match m fsys p)) =
       (if 0 \<le> mrm_max m \<and> fst (MaxResultMatcher_Match m fsys p)
        then mrm_count m + 1 else mrm_count m)"
proof -
  have a: "0 \<le> k \<and> nat k \<le> length cs \<longrightarrow>
      MaxResultMatcher_Matches (NewMaxResultMatcher [WithMaxResult k]) cs =
        (replicate (nat k) True @ replicate (length cs - nat k) False,
         \<lparr>mrm_count = k, mrm_max = k\<rparr>)"
    using Matches_bounded [of "\<lparr>mrm_count = 0, mrm_max = k\<rparr>" "nat k" cs]
    by (simp add: NewMaxResultMatcher_def)
  have b: "k < 0 \<longrightarrow>
      MaxResultMatcher_Matches (NewMaxResultMatcher [WithMaxResult k]) cs =
        (replicate (length cs) True, \<lparr>mrm_count = 0, mrm_max = k\<rparr>)"
    using Matches_unbounded [of "\<lparr>mrm_count = 0, mrm_max = k\<rparr>" cs]
    by (simp add: NewMaxResultMatcher_def)
  have c: "mrm_count (NewMaxResultMatcher [WithMaxResult k]) = 0"
    by (simp add: NewMaxResultMatcher_def)
  have d: "0 \<le> mrm_max m \<and> mrm_max m \<le> mrm_count m \<longrightarrow>
        MaxResultMatcher_Match m fsys p = (False, m)"
    by (simp add: MaxResultMatcher_Match_def)
  have e: "mrm_count (snd (MaxResultMatcher_Match m fsys p)) =
       (if 0 \<le> mrm_max m \<and> fst (MaxResultMatcher_Match m fsys p)
        then mrm_count m + 1 else mrm_count m)"
    by (simp add: MaxResultMatcher_Match_def Let_def)
  from a b c d e show ?thesis
    by blast
qed

theorem MaxResultMatcher_cap_witness:
  "MaxResultMatcher_Matches (NewMaxResultMatcher [WithMaxResult 2])
       [(exampleFS, ''/r/x''), (exampleFS, ''/r/y''), (noFS, ''/r/z'')]
     = ([True, True, False], \<lparr>mrm_count = 2, mrm_max = 2\<rparr>)
   \<and> MaxResultMatcher_Matches (NewMaxResultMatcher [WithMaxResult (- 1)])
       [(exampleFS, ''/r/x''), (exampleFS, ''/r/y''), (noFS, ''/r/z'')]
     = ([True, True, True], \<lparr>mrm_count = 0, mrm_max = - 1\<rparr>)
   \<and> MaxResultMatcher_Match \<lparr>mrm_count = 2, mrm_max = 2\<rparr> noFS ''/r/z''
     = (False, \<lparr>mrm_count = 2, mrm_max = 2\<rparr>)"
  using MaxResultMatcher_cap
          [of 2 "[(exampleFS, ''/r/x''), (exampleFS, ''/r/y''), (noFS, ''/r/z'')]"
              "\<lparr>mrm_count = 2, mrm_max = 2\<rparr>" noFS "''/r/z''"]
        MaxResultMatcher_cap
          [of "- 1" "[(exampleFS, ''/r/x''), (exampleFS, ''/r/y''), (noFS, ''/r/z'')]"
              "\<lparr>mrm_count = 2, mrm_max = 2\<rparr>" noFS "''/r/z''"]
  by (simp add: numeral_eq_Suc)

subsection \<open>MultiMatcher\<close>

lemma allMatch_append:
  "allMatch (xs @ ys) fsys path s =
     (case allMatch xs fsys path s of
        (Inr True, s') \<Rightarrow> allMatch ys fsys path s'
      | r \<Rightarrow> r)"
  by (induction xs arbitrary: s) (auto split: prod.splits sum.splits bool.splits)

lemma thread_snoc: "thread (xs @ [x]) fsys path s = snd (x fsys path (thread xs fsys path s))"
  by (simp add: thread_def)

lemma resultAt_take:
  "j < k \<Longrightarrow> k \<le> length vs \<Longrightarrow> resultAt (take k vs) fsys path s j = resultAt vs fsys path s j"
  by (simp add: resultAt_def min_def)

lemma allMatch_all_true:
  "(\<forall>k<length vs. resultAt vs fsys path s k = Inr True) \<Longrightarrow>
   allMatch vs fsys path s = (Inr True, thread vs fsys path s)"
proof (induction vs rule: rev_induct)
  case Nil
  then show ?case
    by (simp add: thread_def)
next
  case (snoc x xs)
  have "\<forall>k<length xs. resultAt xs fsys path s k = Inr True"
  proof (intro allI impI)
    fix k
    assume k: "k < length xs"
    then have "resultAt (xs @ [x]) fsys path s k = Inr True"
      using snoc.prems by simp
    with k show "resultAt xs fsys path s k = Inr True"
      by (simp add: resultAt_def nth_append)
  qed
  then have xs: "allMatch xs fsys path s = (Inr True, thread xs fsys path s)"
    by (rule snoc.IH)
  have "resultAt (xs @ [x]) fsys path s (length xs) = Inr True"
    using snoc.prems by simp
  then have "fst (x fsys path (thread xs fsys path s)) = Inr True"
    by (simp add: resultAt_def)
  then obtain s2 where "x fsys path (thread xs fsys path s) = (Inr True, s2)"
    by (cases "x fsys path (thread xs fsys path s)") auto
  then show ?case
    by (simp add: allMatch_append xs thread_snoc)
qed

lemma allMatch_true_all:
  "allMatch vs fsys path s = (Inr True, s') \<Longrightarrow>
   (\<forall>k<length vs. resultAt vs fsys path s k = Inr True) \<and> s' = thread vs fsys path s"
proof (induction vs arbitrary: s' rule: rev_induct)
  case Nil
  then show ?case
    by (simp add: thread_def)
next
  case (snoc x xs)
  from snoc.prems obtain s1 where
    xs: "allMatch xs fsys path s = (Inr True, s1)" and x: "x fsys path s1 = (Inr True, s')"
    by (auto simp: allMatch_append split: prod.splits sum.splits bool.splits if_splits)
  from snoc.IH [OF xs] have ih: "\<forall>k<length xs. resultAt xs fsys path s k = Inr True"
    and s1: "s1 = thread xs fsys path s"
    by simp_all
  have "resultAt (xs @ [x]) fsys path s k = Inr True" if "k < length (xs @ [x])" for k
  proof (cases "k < length xs")
    case True
    with ih show ?thesis
      by (simp add: resultAt_def nth_append)
  next
    case False
    with that have "k = length xs"
      by simp
    then show ?thesis
      using x s1 by (simp add: resultAt_def)
  qed
  moreover have "s' = thread (xs @ [x]) fsys path s"
    using x s1 by (simp add: thread_snoc)
  ultimately show ?case
    by blast
qed

lemma allMatch_first_false:
  assumes k: "k < length vs"
    and before: "\<forall>j<k. resultAt vs fsys path s j = Inr True"
    and at: "resultAt vs fsys path s k = Inr False"
  shows "allMatch vs fsys path s = (Inr False, thread (take (Suc k) vs) fsys path s)"
proof -
  let ?t = "thread (take k vs) fsys path s"
  have "\<forall>j<length (take k vs). resultAt (take k vs) fsys path s j = Inr True"
    using k before by (simp add: resultAt_take)
  then have pre: "allMatch (take k vs) fsys path s = (Inr True, ?t)"
    by (rule allMatch_all_true)
  have split: "vs = take k vs @ (vs ! k) # drop (Suc k) vs"
    using k by (simp add: id_take_nth_drop)
  have "allMatch vs fsys path s = allMatch ((vs ! k) # drop (Suc k) vs) fsys path ?t"
    by (subst split) (simp add: allMatch_append pre)
  moreover have "fst ((vs ! k) fsys path ?t) = Inr False"
    using at by (simp add: resultAt_def)
  moreover have "thread (take (Suc k) vs) fsys path s = snd ((vs ! k) fsys path ?t)"
    using k by (simp add: take_Suc_conv_app_nth thread_snoc)
  ultimately show ?thesis
    by (cases "(vs ! k) fsys path ?t") auto
qed

text \<open>
  Claim C8. A composite without matchers returns true and leaves the store alone.
  \<open>Add\<close> appends, so the list is in registration order. A composite returns true
  exactly when every matcher of its list, invoked in that order, returns true, and
  then the store is the one all these calls leave. When the \<open>k\<close>-th matcher is the
  first to return false, the composite returns false and the store is the one the
  first \<open>k + 1\<close> calls leave: no later matcher is invoked.
\<close>

theorem MultiMatcher_Match_short_circuit_and:
  "MultiMatcher_Match \<lparr>ms = []\<rparr> fsys path s = (Inr True, s)
   \<and> ms (Add m new) = ms m @ new
   \<and> ((\<forall>k<length (ms m). resultAt (ms m) fsys path s k = Inr True)
        \<longrightarrow> MultiMatcher_Match m fsys path s = (Inr True, thread (ms m) fsys path s))
   \<and> (fst (MultiMatcher_Match m fsys path s) = Inr True
        \<longrightarrow> (\<forall>k<length (ms m). resultAt (ms m) fsys path s k = Inr True))
   \<and> (k < length (ms m) \<and> (\<forall>j<k. resultAt (ms m) fsys path s j = Inr True)
        \<and> resultAt (ms m) fsys path s k = Inr False
        \<longrightarrow> MultiMatcher_Match m fsys path s =
              (Inr False, thread (take (Suc k) (ms m)) fsys path s))"
proof -
  have a: "MultiMatcher_Match \<lparr>ms = []\<rparr> fsys path s = (Inr True, s)"
    by (simp add: MultiMatcher_Match_def)
  have b: "ms (Add m new) = ms m @ new"
    by (simp add: Add_def)
  have c: "(\<forall>k<length (ms m). resultAt (ms m) fsys path s k = Inr True)
        \<longrightarrow> MultiMatcher_Match m fsys path s = (Inr True, thread (ms m) fsys path s)"
    by (simp add: MultiMatcher_Match_def allMatch_all_true)
  have d: "fst (MultiMatcher_Match m fsys path s) = Inr True
        \<longrightarrow> (\<forall>k<length (ms m). resultAt (ms m) fsys path s k = Inr True)"
  proof
    assume "fst (MultiMatcher_Match m fsys path s) = Inr True"
    then obtain s' where "allMatch (ms m) fsys path s = (Inr True, s')"
      by (cases "allMatch (ms m) fsys path s") (auto simp: MultiMatcher_Match_def)
    then show "\<forall>k<length (ms m). resultAt (ms m) fsys path s k = Inr True"
      by (simp add: allMatch_true_all)
  qed
  have e: "k < length (ms m) \<and> (\<forall>j<k. resultAt (ms m) fsys path s j = Inr True)
        \<and> resultAt (ms m) fsys path s k = Inr False
        \<longrightarrow> MultiMatcher_Match m fsys path s =
              (Inr False, thread (take (Suc k) (ms m)) fsys path s)"
    by (simp add: MultiMatcher_Match_def allMatch_first_false)
  from a b c d e show ?thesis
    by blast
qed

lemma exampleMulti_ms:
  "ms exampleMulti =
     [PureM NopMatcher_Match,
      PureM (SuffixMatcher_Match id (NewSuffixMatcher [WithSuffixes [''.go'']])), MaxResultM]"
  by (simp add: exampleMulti_def Add_def)

theorem MultiMatcher_Match_short_circuit_and_witness:
  "MultiMatcher_Match exampleMulti noFS ''/r/a/main.txt'' \<lparr>mrm_count = 0, mrm_max = 2\<rparr>
     = (Inr False, \<lparr>mrm_count = 0, mrm_max = 2\<rparr>)
   \<and> MultiMatcher_Match exampleMulti noFS ''/r/a/main.go'' \<lparr>mrm_count = 0, mrm_max = 2\<rparr>
     = (Inr True, \<lparr>mrm_count = 1, mrm_max = 2\<rparr>)"
proof -
  let ?s = "\<lparr>mrm_count = 0, mrm_max = 2\<rparr>"
  let ?sm = "NewSuffixMatcher [WithSuffixes [''.go'']]"
  have go: "SuffixMatcher_Match id ?sm noFS ''/r/a/main.go''"
    and nogo: "\<not> SuffixMatcher_Match id ?sm noFS ''/r/a/main.txt''"
    by (simp_all add: SuffixMatcher_Match_def NewSuffixMatcher_def go_name txt_name HasSuffix_def)
  have r0: "resultAt (ms exampleMulti) noFS p ?s 0 = Inr True" for p
    by (simp add: exampleMulti_ms resultAt_def thread_def PureM_def NopMatcher_Match_def)
  have r1: "resultAt (ms exampleMulti) noFS p ?s (Suc 0) = Inr (SuffixMatcher_Match id ?sm noFS p)"
    for p
    by (simp add: exampleMulti_ms resultAt_def thread_def PureM_def)
  have r2: "resultAt (ms exampleMulti) noFS p ?s (Suc (Suc 0)) = Inr True" for p
    by (simp add: exampleMulti_ms resultAt_def thread_def PureM_def MaxResultM_def
        MaxResultMatcher_Match_def)
  have t1: "thread (take (Suc (Suc 0)) (ms exampleMulti)) noFS p ?s = ?s" for p
    by (simp add: exampleMulti_ms thread_def PureM_def)
  have t2: "thread (ms exampleMulti) noFS p ?s = \<lparr>mrm_count = 1, mrm_max = 2\<rparr>" for p
    by (simp add: exampleMulti_ms thread_def PureM_def MaxResultM_def MaxResultMatcher_Match_def)
  have len: "length (ms exampleMulti) = Suc (Suc (Suc 0))"
    by (simp add: exampleMulti_ms)
  have all: "\<forall>k<length (ms exampleMulti).
               resultAt (ms exampleMulti) noFS ''/r/a/main.go'' ?s k = Inr True"
    using r0 r1 r2 go by (auto simp: len less_Suc_eq)
  have pre: "\<forall>j<Suc 0. resultAt (ms exampleMulti) noFS ''/r/a/main.txt'' ?s j = Inr True"
    using r0 by simp
  show ?thesis
    using MultiMatcher_Match_short_circuit_and
            [of noFS "''/r/a/main.txt''" ?s exampleMulti "[]" "Suc 0"]
          MultiMatcher_Match_short_circuit_and
            [of noFS "''/r/a/main.go''" ?s exampleMulti "[]" "Suc 0"]
          all pre r1 nogo
    by (simp add: len t1 t2)
qed

subsection \<open>FiletypeMatcher\<close>

lemmas FT_defs =
  FT_FILE_def FT_DIRECTORY_def FT_SYMLINK_def FT_EXECUTABLE_def FT_EMPTY_def FT_SOCKET_def
  FT_PIPE_def

lemmas Mode_defs =
  ModeDir_def ModeSymlink_def ModeDevice_def ModeNamedPipe_def ModeSocket_def
  ModeCharDevice_def ModeIrregular_def ModeType_def

text \<open>What the code computes for the type \<open>d\<close>: true when the directory bit is
  clear.\<close>

lemma FiletypeMatcher_Match_directory_code:
  "Stat fsys path = Some info \<Longrightarrow>
   FiletypeMatcher_Match \<lparr>ftypes = [FT_DIRECTORY]\<rparr> fsys path = Inr (Mode info AND ModeDir = 0)"
  by (simp add: FiletypeMatcher_Match_def fns_def FT_defs)

text \<open>
  Claim C1 says that the test of \<open>Directory\<close> holds exactly when the directory bit is
  set, and that \<open>Empty\<close> holds of a directory whose listing is empty. The code
  compares the masked mode with zero for \<open>Directory\<close>, \<open>Symlink\<close>, \<open>Socket\<close> and
  \<open>Pipe\<close>, so these tests hold when the bit is clear. On the example tree, a
  matcher for \<open>d\<close> rejects the directory \<open>/r\<close> and accepts the regular file \<open>/r/x\<close>,
  and a matcher for \<open>e\<close> rejects \<open>/r\<close> when its listing is empty.
\<close>

theorem FiletypeMatcher_Match_directory_inverted:
  "FiletypeMatcher_Match (NewFiletypeMatcher [WithFileTypes [FT_DIRECTORY]]) exampleFS ''/r''
     = Inr False
   \<and> FiletypeMatcher_Match (NewFiletypeMatcher [WithFileTypes [FT_DIRECTORY]]) exampleFS ''/r/x''
     = Inr True
   \<and> ReadDir emptyDirFS ''/r'' = Some []
   \<and> FiletypeMatcher_Match (NewFiletypeMatcher [WithFileTypes [FT_EMPTY]]) emptyDirFS ''/r''
     = Inr False"
  by (simp add: FiletypeMatcher_Match_def NewFiletypeMatcher_def fns_def fnsEmpty_def
      FT_defs Mode_defs exampleFS_def emptyDirFS_def)

subsection \<open>HiddenMatcher\<close>

text \<open>What the code computes: with the flag off, true when the base name begins
  with a dot.\<close>

lemma HiddenMatcher_Match_code:
  "HiddenMatcher_Match m fsys path = (hidden m \<or> prefix ''.'' (Base path))"
  by (simp add: HiddenMatcher_Match_def HasPrefix_prefix)

text \<open>
  Claim C2 says that with \<open>hidden = false\<close> a path matches exactly when its base
  name does not begin with a dot, so that \<open>/r/.git\<close> does not match and \<open>/r/README\<close>
  does. The code returns the prefix test itself: \<open>/r/.git\<close> matches and \<open>/r/README\<close>
  does not.
\<close>

theorem HiddenMatcher_Match_dot_inverted:
  "HiddenMatcher_Match (NewHiddenMatcher [WithHidden False]) noFS ''/r/.git'' = True
   \<and> HiddenMatcher_Match (NewHiddenMatcher [WithHidden False]) noFS ''/r/README'' = False"
  by (simp add: HiddenMatcher_Match_def NewHiddenMatcher_def HasPrefix_def Base_def isSep_def)

subsection \<open>DepthMatcher\<close>

lemma Split_nonempty: "Split sep s \<noteq> []"
  by (induction s) (auto split: list.splits)

lemma Split_length: "length (Split sep s) = Suc (count_list s sep)"
  by (induction s) (auto split: list.splits simp: Split_nonempty)

lemma Split_chars: "e \<in> set (Split sep s) \<Longrightarrow> set e \<subseteq> set s"
  by (induction s arbitrary: e) (fastforce split: list.splits if_splits)+

lemma cleanElems_chars:
  "e \<in> set (cleanElems rooted out es) \<Longrightarrow> e \<in> set out \<or> e \<in> set es \<or> e = ''..''"
  by (induction rooted out es rule: cleanElems.induct) (auto split: if_splits list.splits)

lemma joinSep_chars: "set (joinSep es) \<subseteq> (\<Union>e\<in>set es. set e) \<union> {CHR ''/''}"
  by (induction es rule: joinSep.induct) auto

lemma Clean_nonempty: "Clean p \<noteq> []"
  by (simp add: Clean_def Let_def)

lemma Clean_chars: "set (Clean p) \<subseteq> set p \<union> {CHR ''.'', CHR ''/''}"
proof
  fix c
  assume c: "c \<in> set (Clean p)"
  show "c \<in> set p \<union> {CHR ''.'', CHR ''/''}"
  proof (cases "c = CHR ''.'' \<or> c = CHR ''/''")
    case True
    then show ?thesis
      by auto
  next
    case False
    let ?es = "cleanElems (isSep (hd p)) [] (Split (CHR ''/'') p)"
    from c False have "c \<in> set (joinSep ?es)"
      by (auto simp: Clean_def Let_def split: if_splits)
    with False obtain e where e: "e \<in> set ?es" "c \<in> set e"
      using joinSep_chars by fastforce
    from cleanElems_chars [OF e(1)] False e(2) have "e \<in> set (Split (CHR ''/'') p)"
      by auto
    with e(2) Split_chars show ?thesis
      by blast
  qed
qed

lemma SplitList_Clean_length:
  assumes "CHR '':'' \<notin> set p"
  shows "length (SplitList (Clean p)) = 1"
proof -
  have "CHR '':'' \<notin> set (Clean p)"
    using assms Clean_chars [of p] by auto
  then have "count_list (Clean p) (CHR '':'') = 0"
    by (simp add: count_list_0_iff)
  then show ?thesis
    by (simp add: SplitList_def Clean_nonempty Split_length)
qed

text \<open>What the code computes: \<^verbatim>\<open>SplitList\<close> splits at the list separator \<open>:\<close>, not at
  \<open>/\<close>, so between a root and a path without \<open>:\<close> the depth is 0, and an exact depth
  \<open>d\<close> matches only for \<open>d = 0\<close> (a negative \<open>d\<close> sets no bound).\<close>

lemma DepthMatcher_Match_no_list_separator:
  assumes "CHR '':'' \<notin> set root" "CHR '':'' \<notin> set path"
  shows "DepthMatcher_Match (NewDepthMatcher root [WithExactDepth d]) fsys path = Inr (d \<le> 0)"
  using assms
  by (auto simp: DepthMatcher_Match_def NewDepthMatcher_def SplitList_Clean_length Let_def)

text \<open>The filesystem is not read: the result is the same on any two.\<close>

lemma DepthMatcher_Match_pure:
  "DepthMatcher_Match m fsys path = DepthMatcher_Match m fsys' path"
  by (simp add: DepthMatcher_Match_def)

text \<open>
  Claim C3 says that a matcher built with exact depth 1 at root \<open>/r\<close> returns true
  for \<open>/r/x\<close> and false for \<open>/r/x/y\<close>. In the code both the root and the path are
  one element of a \<open>:\<close>-separated list, the depth is \<open>1 - 1 = 0\<close> for both paths, and
  \<open>Match\<close> returns false for both; with exact depth 0 it returns true for \<open>/r/x/y\<close>.
\<close>

theorem DepthMatcher_Match_exact_depth_fails:
  "DepthMatcher_Match (NewDepthMatcher ''/r'' [WithExactDepth 1]) noFS ''/r/x'' = Inr False
   \<and> DepthMatcher_Match (NewDepthMatcher ''/r'' [WithExactDepth 1]) noFS ''/r/x/y'' = Inr False
   \<and> DepthMatcher_Match (NewDepthMatcher ''/r'' [WithExactDepth 0]) noFS ''/r/x/y'' = Inr True"
  by (simp add: DepthMatcher_Match_def NewDepthMatcher_def Clean_def isSep_def SplitList_def)

end
